theory Spec2Isabelle
  imports Main
begin

section \<open>The schema AST, as the emitter reads it\<close>

text \<open>
  The model follows \<^verbatim>\<open>src/index.ts\<close>: the class \<^verbatim>\<open>GRPCVisitor\<close>, the table
  \<^verbatim>\<open>scalarTypeMap\<close> and the function \<^verbatim>\<open>typeSignature\<close>. A \<^verbatim>\<open>Name\<close> node is
  modelled by its \<^verbatim>\<open>value\<close>, an optional \<^verbatim>\<open>StringValue\<close> description by a
  \<open>string option\<close>; source locations are left out, no emitted text depends on them.
\<close>

text \<open>
  A schema type. The first four constructors are the classes the resolver casts to;
  \<open>OtherKind k\<close> stands for a node whose \<^verbatim>\<open>getKind()\<close> is any other kind \<open>k\<close>
  (the \<^verbatim>\<open>default\<close> branch of the resolver's switch).
\<close>

datatype wtype =
    Named string
  | ListType wtype
  | MapType wtype wtype
  | Optional wtype
  | OtherKind string

text \<open>
  What the code can throw: \<open>Error msg\<close> is \<^verbatim>\<open>throw new Error(msg)\<close>; \<open>TypeError\<close> is
  the host language's failure on reading a property of \<^verbatim>\<open>undefined\<close>.
\<close>

datatype error = Error string | TypeError

text \<open>A default value is only ever copied by the emitter, never inspected.\<close>

datatype wvalue = IntValue int | StringValue string | BooleanValue bool

text \<open>
  An annotation, with what \<^verbatim>\<open>convert<FieldNumDirective>()\<close> reads from it: the
  interface \<^verbatim>\<open>FieldNumDirective\<close> has the single member \<^verbatim>\<open>value: number\<close>.
\<close>

record annotation =
  ann_name :: string
  ann_value :: int

record parameter_definition =
  param_name :: string
  param_description :: "string option"
  param_type :: wtype
  param_default :: "wvalue option"
  param_annotations :: "annotation list"

record field_definition =
  field_name :: string
  field_description :: "string option"
  field_type :: wtype
  field_default :: "wvalue option"
  field_annotations :: "annotation list"

record operation_definition =
  oper_name :: string
  oper_description :: "string option"
  oper_parameters :: "parameter_definition list"
  oper_type :: wtype
  oper_annotations :: "annotation list"
  oper_unary :: bool

text \<open>\<open>type_interfaces\<close> is the fourth constructor argument of \<^verbatim>\<open>TypeDefinition\<close>.\<close>

record type_definition =
  type_name :: string
  type_description :: "string option"
  type_interfaces :: "string list"
  type_annotations :: "annotation list"
  type_fields :: "field_definition list"

record role_definition =
  role_name :: string
  role_description :: "string option"
  role_operations :: "operation_definition list"

record enum_value_definition =
  ev_name :: string
  ev_description :: "string option"
  ev_index :: int

record enum_definition =
  enum_name :: string
  enum_description :: "string option"
  enum_values :: "enum_value_definition list"

record union_definition =
  union_name :: string
  union_description :: "string option"
  union_types :: "wtype list"

record document =
  doc_namespace :: string
  doc_roles :: "role_definition list"
  doc_types :: "type_definition list"
  doc_enums :: "enum_definition list"
  doc_unions :: "union_definition list"

text \<open>
  The traversal context: the node being visited and its ancestors. Every member but the
  namespace may be \<^verbatim>\<open>undefined\<close>; the visitor reads them with \<^verbatim>\<open>!\<close>, which checks
  nothing at run time.
\<close>

record Context =
  ctx_namespace :: string
  ctx_role :: "role_definition option"
  ctx_operation :: "operation_definition option"
  ctx_type :: "type_definition option"
  ctx_field :: "field_definition option"
  ctx_enum :: "enum_definition option"
  ctx_enumValue :: "enum_value_definition option"
  ctx_union :: "union_definition option"

text \<open>
  The imported helpers (\<^verbatim>\<open>@wapc/widl-codegen\<close>) and the string built-in
  \<^verbatim>\<open>toUpperCase\<close> are parameters of the model: every definition below takes them in a
  record and every theorem holds for all of them. So is \<open>hostNumberToString\<close>, the text
  the host language gives a number outside the range of the integers it holds exactly
  (rounded digits from \<open>2\<^sup>5\<^sup>3\<close> on, exponent form such as \<^verbatim>\<open>1e+21\<close> from
  \<open>10\<^sup>2\<^sup>1\<close> on).
\<close>

record helpers =
  shouldIncludeHandler :: "Context \<Rightarrow> bool"
  snakeCase :: "string \<Rightarrow> string"
  pascalCase :: "string \<Rightarrow> string"
  formatComment :: "string \<Rightarrow> string option \<Rightarrow> string"
  isVoid :: "wtype \<Rightarrow> bool"
  toUpperCase :: "string \<Rightarrow> string"
  hostNumberToString :: "int \<Rightarrow> string"

section \<open>The type signature resolver\<close>

definition scalarTypeMap :: "(string \<times> string) list" where
  "scalarTypeMap =
    [(''i8'', ''int32''),
     (''i16'', ''int32''),
     (''i32'', ''int32''),
     (''i64'', ''int64''),
     (''u8'', ''uint32''),
     (''u16'', ''uint32''),
     (''u32'', ''uint32''),
     (''u64'', ''uint64''),
     (''f32'', ''float''),
     (''f64'', ''double''),
     (''string'', ''string''),
     (''bytes'', ''bytes''),
     (''boolean'', ''bool''),
     (''date'', ''google.protobuf.Timestamp''),
     (''datetime'', ''google.protobuf.Timestamp''),
     (''raw'', ''google.protobuf.Any'')]"

text \<open>
  \<^verbatim>\<open>a || b\<close> on the result of \<^verbatim>\<open>Map.get\<close>: \<^verbatim>\<open>undefined\<close> and the empty string are
  both falsy.
\<close>

definition or_else :: "string option \<Rightarrow> string \<Rightarrow> string" where
  "or_else r d = (case r of None \<Rightarrow> d | Some s \<Rightarrow> if s = [] then d else s)"

fun typeSignature :: "wtype \<Rightarrow> error + string" where
  "typeSignature (Named n) = Inr (or_else (map_of scalarTypeMap n) n)"
| "typeSignature (ListType t) =
     (case typeSignature t of
        Inl e \<Rightarrow> Inl e
      | Inr s \<Rightarrow> Inr (''repeated '' @ s))"
| "typeSignature (MapType k v) =
     (case typeSignature k of
        Inl e \<Rightarrow> Inl e
      | Inr ks \<Rightarrow>
          (case typeSignature v of
             Inl e \<Rightarrow> Inl e
           | Inr vs \<Rightarrow> Inr (''map<'' @ ks @ '', '' @ vs @ ''>'')))"
| "typeSignature (Optional t) =
     (case typeSignature t of
        Inl e \<Rightarrow> Inl e
      | Inr s \<Rightarrow> Inr (''optional '' @ s))"
| "typeSignature (OtherKind k) = Inl (Error (''unexpected kind: '' @ k))"

text \<open>A type built from the four known variants only.\<close>

fun known_kinds :: "wtype \<Rightarrow> bool" where
  "known_kinds (Named n) = True"
| "known_kinds (ListType t) = known_kinds t"
| "known_kinds (MapType k v) = (known_kinds k \<and> known_kinds v)"
| "known_kinds (Optional t) = known_kinds t"
| "known_kinds (OtherKind k) = False"

section \<open>The visitor\<close>

text \<open>
  The visitor's mutable state: the text written so far (\<^verbatim>\<open>this.write\<close> appends to the
  sink) and the private array \<^verbatim>\<open>requestTypes\<close>.
\<close>

record visitor =
  written :: string
  requestTypes :: "type_definition list"

text \<open>
  A visit either returns with the new state (\<open>Inr\<close>) or throws (\<open>Inl\<close>); a throw keeps
  the state reached when it happened, so that what had been written is not lost.
\<close>

type_synonym outcome = "(error \<times> visitor) + visitor"

definition write_text :: "string \<Rightarrow> visitor \<Rightarrow> visitor" where
  "write_text s v = v\<lparr>written := written v @ s\<rparr>"

definition and_then :: "outcome \<Rightarrow> (visitor \<Rightarrow> outcome) \<Rightarrow> outcome" where
  "and_then r f = (case r of Inl e \<Rightarrow> Inl e | Inr v \<Rightarrow> f v)"

text \<open>The state an outcome ends in, thrown or not.\<close>

definition final_state :: "outcome \<Rightarrow> visitor" where
  "final_state r = (case r of Inl (e, v) \<Rightarrow> v | Inr v \<Rightarrow> v)"

text \<open>A loop over an array: the first throw ends it.\<close>

fun for_each :: "('a \<Rightarrow> visitor \<Rightarrow> outcome) \<Rightarrow> 'a list \<Rightarrow> visitor \<Rightarrow> outcome" where
  "for_each f [] v = Inr v"
| "for_each f (x # xs) v =
     (case f x v of
        Inl e \<Rightarrow> Inl e
      | Inr v' \<Rightarrow> for_each f xs v')"

text \<open>The decimal numeral of a natural number and of an integer.\<close>

definition digit_char :: "nat \<Rightarrow> char" where
  "digit_char n = ''0123456789'' ! n"

fun digits :: "nat \<Rightarrow> string" where
  "digits n =
     (if n < 10 then [digit_char n]
      else digits (n div 10) @ [digit_char (n mod 10)])"

declare digits.simps [simp del]

definition decimal :: "int \<Rightarrow> string" where
  "decimal i = (if i < 0 then ''-'' @ digits (nat (- i)) else digits (nat i))"

text \<open>
  A number of the schema (a field number, an enum index) in a template literal. The host
  language holds a number as a double: an integer of magnitude below \<open>2\<^sup>5\<^sup>3\<close> is held
  exactly and printed as its decimal numeral; what is printed for any other number is
  the host's business (\<open>hostNumberToString\<close>).
\<close>

definition numberToString :: "helpers \<Rightarrow> int \<Rightarrow> string" where
  "numberToString h i = (if \<bar>i\<bar> < 2 ^ 53 then decimal i else hostNumberToString h i)"

text \<open>
  \<^verbatim>\<open>node.annotation(name)\<close>, a method of the AST library: the annotation of that name
  (the first, should there be several), or \<^verbatim>\<open>undefined\<close>.
\<close>

definition annotation_of :: "annotation list \<Rightarrow> string \<Rightarrow> annotation option" where
  "annotation_of anns n = find (\<lambda>a. ann_name a = n) anns"

text \<open>\<^verbatim>\<open>this.write(`${typeSignature(t)}`)\<close>: nothing is written when the resolver throws.\<close>

definition write_signature :: "wtype \<Rightarrow> visitor \<Rightarrow> outcome" where
  "write_signature t v =
     (case typeSignature t of
        Inl e \<Rightarrow> Inl (e, v)
      | Inr s \<Rightarrow> Inr (write_text s v))"

definition visitDocumentBefore :: "helpers \<Rightarrow> Context \<Rightarrow> visitor \<Rightarrow> outcome" where
  \<open>visitDocumentBefore h ctx v = Inr (write_text ''syntax = "proto3";\<newline>\<newline>'' v)\<close>

definition visitNamespace :: "helpers \<Rightarrow> Context \<Rightarrow> visitor \<Rightarrow> outcome" where
  "visitNamespace h ctx v = Inr (write_text (''package '' @ ctx_namespace ctx @ '';\<newline>\<newline>'') v)"

definition visitRoleBefore :: "helpers \<Rightarrow> Context \<Rightarrow> visitor \<Rightarrow> outcome" where
  "visitRoleBefore h ctx v =
     (if \<not> shouldIncludeHandler h ctx then Inr v
      else
        (case ctx_role ctx of
           None \<Rightarrow> Inl (TypeError, v)
         | Some role \<Rightarrow>
             Inr (write_text (''service '' @ role_name role @ '' {\<newline>'')
                   (write_text (formatComment h ''// '' (role_description role)) v))))"

definition visitRoleAfter :: "helpers \<Rightarrow> Context \<Rightarrow> visitor \<Rightarrow> outcome" where
  "visitRoleAfter h ctx v =
     (if \<not> shouldIncludeHandler h ctx then Inr v
      else Inr (write_text ''}\<newline>\<newline>'' v))"

definition convertOperationToType :: "helpers \<Rightarrow> operation_definition \<Rightarrow> type_definition" where
  "convertOperationToType h operation =
     (let fields =
            map (\<lambda>param.
                  \<lparr>field_name = param_name param,
                   field_description = param_description param,
                   field_type = param_type param,
                   field_default = param_default param,
                   field_annotations = param_annotations param\<rparr>)
              (oper_parameters operation)
      in \<lparr>type_name = pascalCase h (oper_name operation) @ ''Request'',
          type_description =
            Some (''Request for the '' @ pascalCase h (oper_name operation) @ '' operation.''),
          type_interfaces = [],
          type_annotations = oper_annotations operation,
          type_fields = fields\<rparr>)"

definition visitOperationBefore :: "helpers \<Rightarrow> Context \<Rightarrow> visitor \<Rightarrow> outcome" where
  "visitOperationBefore h ctx v =
     (if \<not> shouldIncludeHandler h ctx then Inr v
      else
        (case ctx_operation ctx of
           None \<Rightarrow> Inl (TypeError, v)
         | Some oper \<Rightarrow>
             (let v1 = write_text (formatComment h ''  // '' (oper_description oper)) v;
                  v2 = write_text (''  rpc '' @ pascalCase h (oper_name oper) @ ''('') v1
              in and_then
                   (if oper_unary oper then
                      (case oper_parameters oper of
                         [] \<Rightarrow> Inl (TypeError, v2)
                       | p # ps \<Rightarrow> write_signature (param_type p) v2)
                    else
                      Inr (write_text (pascalCase h (oper_name oper) @ ''Request'')
                            (v2\<lparr>requestTypes :=
                                  requestTypes v2 @ [convertOperationToType h oper]\<rparr>)))
                   (\<lambda>v3.
                      and_then
                        (if isVoid h (oper_type oper) then
                           Inr (write_text ''Empty'' (write_text '') returns ('' v3))
                         else write_signature (oper_type oper) (write_text '') returns ('' v3))
                        (\<lambda>v4. Inr (write_text '');\<newline>'' v4))))))"

definition visitOperationAfter :: "helpers \<Rightarrow> Context \<Rightarrow> visitor \<Rightarrow> outcome" where
  "visitOperationAfter h ctx v = (if \<not> shouldIncludeHandler h ctx then Inr v else Inr v)"

definition visitTypeBefore :: "helpers \<Rightarrow> Context \<Rightarrow> visitor \<Rightarrow> outcome" where
  "visitTypeBefore h ctx v =
     (case ctx_type ctx of
        None \<Rightarrow> Inl (TypeError, v)
      | Some ty \<Rightarrow>
          Inr (write_text (''message '' @ pascalCase h (type_name ty) @ '' {\<newline>'')
                (write_text (formatComment h ''// '' (type_description ty)) v)))"

definition visitTypeField :: "helpers \<Rightarrow> Context \<Rightarrow> visitor \<Rightarrow> outcome" where
  "visitTypeField h ctx v =
     (case ctx_field ctx of
        None \<Rightarrow> Inl (TypeError, v)
      | Some field \<Rightarrow>
          (case annotation_of (field_annotations field) ''fieldnum'' of
             None \<Rightarrow>
               (case ctx_type ctx of
                  None \<Rightarrow> Inl (TypeError, v)
                | Some ty \<Rightarrow>
                    Inl (Error (type_name ty @ ''.'' @ field_name field @ '' requires a @fieldnum''), v))
           | Some fieldnum \<Rightarrow>
               (let v1 = write_text (formatComment h ''  // '' (field_description field)) v
                in (case typeSignature (field_type field) of
                      Inl e \<Rightarrow> Inl (e, v1)
                    | Inr s \<Rightarrow>
                        Inr (write_text (''  '' @ s @ '' '' @ snakeCase h (field_name field) @ '' = ''
                                    @ numberToString h (ann_value fieldnum) @ '';\<newline>'') v1)))))"

definition visitTypeAfter :: "helpers \<Rightarrow> Context \<Rightarrow> visitor \<Rightarrow> outcome" where
  "visitTypeAfter h ctx v = Inr (write_text ''}\<newline>\<newline>'' v)"

definition visitEnumBefore :: "helpers \<Rightarrow> Context \<Rightarrow> visitor \<Rightarrow> outcome" where
  "visitEnumBefore h ctx v =
     (case ctx_enum ctx of
        None \<Rightarrow> Inl (TypeError, v)
      | Some e \<Rightarrow>
          Inr (write_text (''enum '' @ pascalCase h (enum_name e) @ '' {\<newline>'')
                (write_text (formatComment h ''// '' (enum_description e)) v)))"

definition visitEnumValue :: "helpers \<Rightarrow> Context \<Rightarrow> visitor \<Rightarrow> outcome" where
  "visitEnumValue h ctx v =
     (case ctx_enumValue ctx of
        None \<Rightarrow> Inl (TypeError, v)
      | Some ev \<Rightarrow>
          Inr (write_text (''  '' @ toUpperCase h (snakeCase h (ev_name ev)) @ '' = ''
                      @ numberToString h (ev_index ev) @ '';\<newline>'')
                (write_text (formatComment h ''  // '' (ev_description ev)) v)))"

definition visitEnumAfter :: "helpers \<Rightarrow> Context \<Rightarrow> visitor \<Rightarrow> outcome" where
  "visitEnumAfter h ctx v = Inr (write_text ''}\<newline>\<newline>'' v)"

text \<open>
  \<^verbatim>\<open>t.name\<close>: only a \<^verbatim>\<open>Named\<close> node has the member; on any other node it is
  \<^verbatim>\<open>undefined\<close>, and reading \<^verbatim>\<open>.value\<close> of that throws.
\<close>

fun member_name :: "wtype \<Rightarrow> string option" where
  "member_name (Named n) = Some n"
| "member_name t = None"

text \<open>
  The loop of \<^verbatim>\<open>visitUnion\<close>, with its counter \<open>i\<close>. In the template literal the
  resolver runs before the name is read. The counter is at most the length of the
  array, which the host language keeps below \<open>2\<^sup>3\<^sup>2\<close>, so it is printed as its decimal
  numeral.
\<close>

fun union_members :: "helpers \<Rightarrow> nat \<Rightarrow> wtype list \<Rightarrow> visitor \<Rightarrow> outcome" where
  "union_members h i [] v = Inr v"
| "union_members h i (t # ts) v =
     (case typeSignature t of
        Inl e \<Rightarrow> Inl (e, v)
      | Inr s \<Rightarrow>
          (case member_name t of
             None \<Rightarrow> Inl (TypeError, v)
           | Some n \<Rightarrow>
               union_members h (i + 1) ts
                 (write_text (''    '' @ s @ '' '' @ snakeCase h n @ ''_value = ''
                         @ decimal (int (i + 1)) @ '';\<newline>'') v)))"

definition visitUnion :: "helpers \<Rightarrow> Context \<Rightarrow> visitor \<Rightarrow> outcome" where
  "visitUnion h ctx v =
     (case ctx_union ctx of
        None \<Rightarrow> Inl (TypeError, v)
      | Some u \<Rightarrow>
          and_then
            (union_members h 0 (union_types u)
               (write_text ''  oneof oneof {\<newline>''
                 (write_text (''message '' @ pascalCase h (union_name u) @ '' {\<newline>'')
                   (write_text (formatComment h ''// '' (union_description u)) v))))
            (\<lambda>v'. Inr (write_text ''}\<newline>\<newline>'' (write_text ''  }\<newline>'' v'))))"

text \<open>
  Modelled from the spec: \<^verbatim>\<open>TypeDefinition.accept\<close> of the AST library, which is not
  part of the sources. It runs the message emission: the header, one visit per field in
  declaration order, the closing text.
\<close>

definition type_accept :: "helpers \<Rightarrow> Context \<Rightarrow> type_definition \<Rightarrow> visitor \<Rightarrow> outcome" where
  "type_accept h ctx ty v =
     and_then (visitTypeBefore h ctx v)
       (\<lambda>v1. and_then
               (for_each (\<lambda>f. visitTypeField h (ctx\<lparr>ctx_field := Some f\<rparr>)) (type_fields ty) v1)
               (visitTypeAfter h ctx))"

definition visitDocumentAfter :: "helpers \<Rightarrow> Context \<Rightarrow> visitor \<Rightarrow> outcome" where
  "visitDocumentAfter h ctx v =
     for_each (\<lambda>request. type_accept h (ctx\<lparr>ctx_type := Some request\<rparr>) request)
       (requestTypes v) v"

section \<open>The traversal\<close>

text \<open>
  The \<^verbatim>\<open>accept\<close> methods that drive the visitor belong to the AST library, which is
  not part of the sources. They are modelled on the traversal order of the
  specification: syntax line, package, roles with their operations, types, enums,
  unions, and \<^verbatim>\<open>visitDocumentAfter\<close> last. Each node is visited in a copy of its
  parent's context that names the node.
\<close>

text \<open>
  Modelled from the spec: \<^verbatim>\<open>OperationDefinition.accept\<close> (AST library, not in the
  sources). The visitor overrides the two operation callbacks only.
\<close>

definition operation_accept :: "helpers \<Rightarrow> Context \<Rightarrow> visitor \<Rightarrow> outcome" where
  "operation_accept h ctx v =
     and_then (visitOperationBefore h ctx v) (visitOperationAfter h ctx)"

text \<open>
  Modelled from the spec: \<^verbatim>\<open>RoleDefinition.accept\<close> (AST library, not in the sources):
  the role's callbacks around one visit per operation, in declaration order.
\<close>

definition role_accept :: "helpers \<Rightarrow> Context \<Rightarrow> role_definition \<Rightarrow> visitor \<Rightarrow> outcome" where
  "role_accept h ctx r v =
     and_then (visitRoleBefore h ctx v)
       (\<lambda>v1. and_then
               (for_each (\<lambda>oper. operation_accept h (ctx\<lparr>ctx_operation := Some oper\<rparr>))
                  (role_operations r) v1)
               (visitRoleAfter h ctx))"

text \<open>
  Modelled from the spec: \<^verbatim>\<open>EnumDefinition.accept\<close> (AST library, not in the sources):
  the enum's callbacks around one visit per value, in declaration order.
\<close>

definition enum_accept :: "helpers \<Rightarrow> Context \<Rightarrow> enum_definition \<Rightarrow> visitor \<Rightarrow> outcome" where
  "enum_accept h ctx e v =
     and_then (visitEnumBefore h ctx v)
       (\<lambda>v1. and_then
               (for_each (\<lambda>ev. visitEnumValue h (ctx\<lparr>ctx_enumValue := Some ev\<rparr>))
                  (enum_values e) v1)
               (visitEnumAfter h ctx))"

text \<open>
  Modelled from the spec: the context a document is visited in (AST library, not in the
  sources). It names the namespace and no other node.
\<close>

definition document_context :: "document \<Rightarrow> Context" where
  "document_context d =
     \<lparr>ctx_namespace = doc_namespace d, ctx_role = None, ctx_operation = None,
      ctx_type = None, ctx_field = None, ctx_enum = None, ctx_enumValue = None,
      ctx_union = None\<rparr>"

text \<open>
  Modelled from the spec: the part of \<^verbatim>\<open>Document.accept\<close> (AST library, not in the
  sources) before \<^verbatim>\<open>visitDocumentAfter\<close>, that is the primary sections in their fixed
  order.
\<close>

definition document_primary :: "helpers \<Rightarrow> Context \<Rightarrow> document \<Rightarrow> visitor \<Rightarrow> outcome" where
  "document_primary h ctx d v =
     and_then (visitDocumentBefore h ctx v)
       (\<lambda>v1. and_then (visitNamespace h ctx v1)
       (\<lambda>v2. and_then
               (for_each (\<lambda>r. role_accept h (ctx\<lparr>ctx_role := Some r\<rparr>) r) (doc_roles d) v2)
       (\<lambda>v3. and_then
               (for_each (\<lambda>t. type_accept h (ctx\<lparr>ctx_type := Some t\<rparr>) t) (doc_types d) v3)
       (\<lambda>v4. and_then
               (for_each (\<lambda>e. enum_accept h (ctx\<lparr>ctx_enum := Some e\<rparr>) e) (doc_enums d) v4)
               (for_each (\<lambda>u. visitUnion h (ctx\<lparr>ctx_union := Some u\<rparr>)) (doc_unions d))))))"

text \<open>
  Modelled from the spec: \<^verbatim>\<open>Document.accept\<close> (AST library, not in the sources): the
  primary sections, then \<^verbatim>\<open>visitDocumentAfter\<close>.
\<close>

definition document_accept :: "helpers \<Rightarrow> document \<Rightarrow> visitor \<Rightarrow> outcome" where
  "document_accept h d v =
     and_then (document_primary h (document_context d) d v)
       (visitDocumentAfter h (document_context d))"

section \<open>The specification's wording, for comparison\<close>

text \<open>
  The text of one field line as the specification words it:
  \<^verbatim>\<open><TypeSignature> <snake_case(fieldName)> = <fieldnum>;\<close> after the field's comment.
  There is none when the field has no \<^verbatim>\<open>fieldnum\<close> or its type does not resolve.
\<close>

definition spec_field_line :: "helpers \<Rightarrow> field_definition \<Rightarrow> string option" where
  "spec_field_line h f =
     (case (annotation_of (field_annotations f) ''fieldnum'', typeSignature (field_type f)) of
        (Some a, Inr s) \<Rightarrow>
          Some (formatComment h ''  // '' (field_description f)
                @ ''  '' @ s @ '' '' @ snakeCase h (field_name f) @ '' = ''
                @ numberToString h (ann_value a) @ '';\<newline>'')
      | _ \<Rightarrow> None)"

text \<open>The header of a message block: its comment and its opening line.\<close>

definition spec_message_header :: "helpers \<Rightarrow> type_definition \<Rightarrow> string" where
  "spec_message_header h ty =
     formatComment h ''// '' (type_description ty)
     @ ''message '' @ pascalCase h (type_name ty) @ '' {\<newline>''"



text \<open>The line of one union member, numbered \<open>i\<close>.\<close>

definition spec_union_line :: "helpers \<Rightarrow> nat \<times> string \<Rightarrow> string" where
  "spec_union_line h p =
     ''    '' @ or_else (map_of scalarTypeMap (snd p)) (snd p) @ '' ''
     @ snakeCase h (snd p) @ ''_value = '' @ decimal (int (fst p)) @ '';\<newline>''"

text \<open>
  Reading a decimal numeral back: the value of a digit, of a string of digits, and of a
  numeral with an optional minus sign.
\<close>

definition digit_value :: "char \<Rightarrow> nat" where
  "digit_value c = of_char c - 48"

definition is_digit :: "char \<Rightarrow> bool" where
  "is_digit c = (c \<in> set ''0123456789'')"

definition digits_value :: "string \<Rightarrow> nat" where
  "digits_value s = foldl (\<lambda>a c. 10 * a + digit_value c) 0 s"

definition decimal_value :: "string \<Rightarrow> int" where
  "decimal_value s =
     (case s of
        [] \<Rightarrow> 0
      | c # cs \<Rightarrow> if c = CHR ''-'' then - int (digits_value cs) else int (digits_value s))"

section \<open>Sample helpers and inputs\<close>

text \<open>
  One choice of the helper functions, to run the model on concrete inputs. The theorems
  hold for every choice. Of the host's printing of large numbers the sample knows one
  value only: \<open>10\<^sup>2\<^sup>1\<close> is printed \<^verbatim>\<open>1e+21\<close>.
\<close>

definition ascii_upper :: "char \<Rightarrow> char" where
  "ascii_upper c =
     (if 97 \<le> (of_char c :: nat) \<and> (of_char c :: nat) \<le> 122
      then char_of ((of_char c :: nat) - 32) else c)"

definition ascii_lower :: "char \<Rightarrow> char" where
  "ascii_lower c =
     (if 65 \<le> (of_char c :: nat) \<and> (of_char c :: nat) \<le> 90
      then char_of ((of_char c :: nat) + 32) else c)"

definition sample_helpers :: helpers where
  "sample_helpers =
     \<lparr>shouldIncludeHandler =
        (\<lambda>ctx. case ctx_role ctx of None \<Rightarrow> True | Some r \<Rightarrow> role_name r \<noteq> ''Hidden''),
      snakeCase = map ascii_lower,
      pascalCase = (\<lambda>s. case s of [] \<Rightarrow> [] | c # cs \<Rightarrow> ascii_upper c # cs),
      formatComment = (\<lambda>prefix d. case d of None \<Rightarrow> [] | Some t \<Rightarrow> prefix @ t @ ''\<newline>''),
      isVoid = (\<lambda>t. t = Named ''void''),
      toUpperCase = map ascii_upper,
      hostNumberToString = (\<lambda>i. if i = 10 ^ 21 then ''1e+21'' else ''(not sampled)'')\<rparr>"

definition fieldnum :: "int \<Rightarrow> annotation" where
  "fieldnum n = \<lparr>ann_name = ''fieldnum'', ann_value = n\<rparr>"

definition sample_param :: "string \<Rightarrow> wtype \<Rightarrow> annotation list \<Rightarrow> parameter_definition" where
  "sample_param n t anns =
     \<lparr>param_name = n, param_description = None, param_type = t, param_default = None,
      param_annotations = anns\<rparr>"

definition sample_field :: "string \<Rightarrow> wtype \<Rightarrow> annotation list \<Rightarrow> field_definition" where
  "sample_field n t anns =
     \<lparr>field_name = n, field_description = None, field_type = t, field_default = None,
      field_annotations = anns\<rparr>"

text \<open>\<^verbatim>\<open>add(a: i32 @fieldnum(1), b: i32 @fieldnum(2)): i32\<close>, not unary.\<close>

definition add_operation :: operation_definition where
  "add_operation =
     \<lparr>oper_name = ''add'', oper_description = None,
      oper_parameters =
        [sample_param ''a'' (Named ''i32'') [fieldnum 1],
         sample_param ''b'' (Named ''i32'') [fieldnum 2]],
      oper_type = Named ''i32'', oper_annotations = [], oper_unary = False\<rparr>"

text \<open>\<^verbatim>\<open>ping(): void\<close>: no parameter, so not unary.\<close>

definition ping_operation :: operation_definition where
  "ping_operation =
     \<lparr>oper_name = ''ping'', oper_description = None, oper_parameters = [],
      oper_type = Named ''void'', oper_annotations = [], oper_unary = False\<rparr>"

text \<open>\<^verbatim>\<open>echo{msg: Message}: Message\<close>, unary.\<close>

definition echo_operation :: operation_definition where
  "echo_operation =
     \<lparr>oper_name = ''echo'', oper_description = None,
      oper_parameters = [sample_param ''msg'' (Named ''Message'') []],
      oper_type = Named ''Message'', oper_annotations = [], oper_unary = True\<rparr>"

definition calc_role :: role_definition where
  "calc_role =
     \<lparr>role_name = ''Calc'', role_description = None,
      role_operations = [add_operation, echo_operation]\<rparr>"

definition hidden_role :: role_definition where
  "hidden_role =
     \<lparr>role_name = ''Hidden'', role_description = Some ''not served'',
      role_operations = [add_operation]\<rparr>"

definition shape_union :: union_definition where
  "shape_union =
     \<lparr>union_name = ''shape'', union_description = Some ''A shape'',
      union_types = [Named ''Circle'', Named ''i32'']\<rparr>"

definition list_union :: union_definition where
  "list_union =
     \<lparr>union_name = ''items'', union_description = None,
      union_types = [Named ''Circle'', ListType (Named ''i32''), Named ''Square'']\<rparr>"

definition point_type :: type_definition where
  "point_type =
     \<lparr>type_name = ''point'', type_description = None, type_interfaces = [],
      type_annotations = [],
      type_fields =
        [sample_field ''x'' (Named ''f64'') [fieldnum 120],
         sample_field ''y'' (Named ''f64'') [],
         sample_field ''z'' (Named ''f64'') [fieldnum 3]]\<rparr>"




definition negate_operation :: operation_definition where
  "negate_operation =
     \<lparr>oper_name = ''negate'', oper_description = None,
      oper_parameters = [sample_param ''a'' (Named ''i32'') [fieldnum 1]],
      oper_type = Named ''i32'', oper_annotations = [], oper_unary = False\<rparr>"



definition empty_visitor :: visitor where
  "empty_visitor = \<lparr>written = [], requestTypes = []\<rparr>"

definition empty_context :: Context where
  "empty_context =
     \<lparr>ctx_namespace = ''pkg.demo'', ctx_role = None, ctx_operation = None,
      ctx_type = None, ctx_field = None, ctx_enum = None, ctx_enumValue = None,
      ctx_union = None\<rparr>"

definition sample_document :: document where
  "sample_document =
     \<lparr>doc_namespace = ''pkg.demo'', doc_roles = [hidden_role, calc_role],
      doc_types = [], doc_enums = [], doc_unions = []\<rparr>"

section \<open>Properties of the resolver\<close>

lemma typeSignature_known: "known_kinds t \<Longrightarrow> \<exists>s. typeSignature t = Inr s"
  by (induction t) auto

lemma typeSignature_unknown: "\<not> known_kinds t \<Longrightarrow> \<exists>e. typeSignature t = Inl e"
  by (induction t) (auto split: sum.splits)

text \<open>
  Claim C3. On a \<open>Named\<close> type the resolver returns the entry of the fixed table for each
  of its sixteen keys, and the name itself, unchanged by any helper, for every name that is not
  one of the keys. Keys are compared as they are written: \<open>I8\<close> is not \<open>i8\<close>.
\<close>

theorem scalar_table_resolution:
  "typeSignature (Named ''i8'') = Inr ''int32''
   \<and> typeSignature (Named ''i16'') = Inr ''int32''
   \<and> typeSignature (Named ''i32'') = Inr ''int32''
   \<and> typeSignature (Named ''i64'') = Inr ''int64''
   \<and> typeSignature (Named ''u8'') = Inr ''uint32''
   \<and> typeSignature (Named ''u16'') = Inr ''uint32''
   \<and> typeSignature (Named ''u32'') = Inr ''uint32''
   \<and> typeSignature (Named ''u64'') = Inr ''uint64''
   \<and> typeSignature (Named ''f32'') = Inr ''float''
   \<and> typeSignature (Named ''f64'') = Inr ''double''
   \<and> typeSignature (Named ''string'') = Inr ''string''
   \<and> typeSignature (Named ''bytes'') = Inr ''bytes''
   \<and> typeSignature (Named ''boolean'') = Inr ''bool''
   \<and> typeSignature (Named ''date'') = Inr ''google.protobuf.Timestamp''
   \<and> typeSignature (Named ''datetime'') = Inr ''google.protobuf.Timestamp''
   \<and> typeSignature (Named ''raw'') = Inr ''google.protobuf.Any''
   \<and> (n \<notin> {''i8'', ''i16'', ''i32'', ''i64'', ''u8'', ''u16'', ''u32'', ''u64'', ''f32'', ''f64'',
             ''string'', ''bytes'', ''boolean'', ''date'', ''datetime'', ''raw''}
        \<longrightarrow> typeSignature (Named n) = Inr n)"
  by (simp add: scalarTypeMap_def or_else_def)

theorem scalar_table_resolution_witness:
  "typeSignature (Named ''I8'') = Inr ''I8''
   \<and> typeSignature (Named ''Message'') = Inr ''Message''
   \<and> typeSignature (Named ''i8'') = Inr ''int32''"
  using scalar_table_resolution [of "''I8''"] scalar_table_resolution [of "''Message''"]
  by simp

text \<open>
  Claim C4. Where the inner types resolve, a list resolves to \<open>repeated\<close> and an optional
  to \<open>optional\<close> followed by the inner signature, a map to \<open>map<K, V>\<close> of the two
  signatures, and each layer of a nested type adds its word once, outermost first.
\<close>

theorem composite_signatures:
  "(typeSignature t = Inr s \<longrightarrow>
      typeSignature (ListType t) = Inr (''repeated '' @ s)
      \<and> typeSignature (Optional t) = Inr (''optional '' @ s)
      \<and> typeSignature (Optional (ListType t)) = Inr (''optional repeated '' @ s)
      \<and> typeSignature (ListType (Optional t)) = Inr (''repeated optional '' @ s))
   \<and> (typeSignature k = Inr ks \<and> typeSignature v = Inr vs \<longrightarrow>
      typeSignature (MapType k v) = Inr (''map<'' @ ks @ '', '' @ vs @ ''>''))"
  by simp

theorem composite_signatures_witness:
  "typeSignature (Optional (ListType (Named ''i64''))) = Inr ''optional repeated int64''
   \<and> typeSignature (MapType (Named ''string'') (Named ''Point'')) = Inr ''map<string, Point>''"
  using composite_signatures [of "Named ''i64''" "''int64''" "Named ''string''" "''string''"
      "Named ''Point''" "''Point''"]
  by (simp add: scalarTypeMap_def or_else_def)

text \<open>
  Claim C9. The resolver returns a signature for every type built from the four variants
  \<open>Named\<close>, \<open>ListType\<close>, \<open>MapType\<close> and \<open>Optional\<close>, and throws for every other type:
  on a node of another kind it throws the error that names the kind, and a type that
  contains such a node resolves to no signature at all.
\<close>

theorem resolver_total_on_known_kinds:
  "(known_kinds t \<longrightarrow> (\<exists>s. typeSignature t = Inr s))
   \<and> (\<not> known_kinds t \<longrightarrow> (\<exists>e. typeSignature t = Inl e))
   \<and> typeSignature (OtherKind k) = Inl (Error (''unexpected kind: '' @ k))"
  using typeSignature_known typeSignature_unknown by simp

theorem resolver_total_on_known_kinds_witness:
  "(\<exists>s. typeSignature (MapType (Named ''string'') (ListType (Optional (Named ''Point'')))) = Inr s)
   \<and> (\<exists>e. typeSignature (ListType (OtherKind ''EnumDefinition'')) = Inl e)
   \<and> typeSignature (OtherKind ''EnumDefinition'') = Inl (Error ''unexpected kind: EnumDefinition'')"
  using resolver_total_on_known_kinds
      [of "MapType (Named ''string'') (ListType (Optional (Named ''Point'')))" "''EnumDefinition''"]
    resolver_total_on_known_kinds [of "ListType (OtherKind ''EnumDefinition'')" "''EnumDefinition''"]
  by simp

section \<open>Basic facts about the visitor's state\<close>

lemma and_then_Inr [simp]: "and_then (Inr v) f = f v"
  by (simp add: and_then_def)

lemma and_then_Inl [simp]: "and_then (Inl e) f = Inl e"
  by (simp add: and_then_def)

lemma written_write_text [simp]: "written (write_text s v) = written v @ s"
  by (simp add: write_text_def)

lemma requestTypes_write_text [simp]: "requestTypes (write_text s v) = requestTypes v"
  by (simp add: write_text_def)

lemma write_text_twice: "write_text t (write_text s v) = write_text (s @ t) v"
  by (simp add: write_text_def)

lemma write_text_empty [simp]: "write_text [] v = v"
  by (simp add: write_text_def)

lemma final_state_simps [simp]:
  "final_state (Inr v) = v" "final_state (Inl (e, v)) = v"
  by (simp_all add: final_state_def)


subsection \<open>Decimal numerals\<close>

text \<open>
  The numeral printed for a number is its decimal numeral and nothing else: it consists
  of digits, it has no leading zero, and it reads back to the number.
\<close>

lemma digit_char_cases:
  assumes "d < 10"
  shows "digit_value (digit_char d) = d \<and> is_digit (digit_char d)
    \<and> digit_char d \<noteq> CHR ''-'' \<and> (0 < d \<longrightarrow> digit_char d \<noteq> CHR ''0'')"
proof -
  from assms have "d \<in> {0, 1, 2, 3, 4, 5, 6, 7, 8, 9}" by auto
  then show ?thesis
    by (auto simp: digit_char_def digit_value_def is_digit_def)
qed

lemma digits_not_Nil: "digits n \<noteq> []"
  by (subst digits.simps) simp

lemma digits_value_digits: "digits_value (digits n) = n"
proof (induction n rule: digits.induct)
  case (1 n)
  show ?case
  proof (cases "n < 10")
    case True
    then show ?thesis
      using digit_char_cases [of n] by (subst digits.simps) (simp add: digits_value_def)
  next
    case False
    then have "digits_value (digits (n div 10)) = n div 10" using 1 by simp
    then show ?thesis
      using False digit_char_cases [of "n mod 10"]
      by (subst digits.simps) (simp add: digits_value_def)
  qed
qed

lemma digits_all_digits: "list_all is_digit (digits n)"
proof (induction n rule: digits.induct)
  case (1 n)
  show ?case
  proof (cases "n < 10")
    case True
    then show ?thesis using digit_char_cases [of n] by (subst digits.simps) simp
  next
    case False
    then show ?thesis
      using 1 digit_char_cases [of "n mod 10"] by (subst digits.simps) simp
  qed
qed

lemma hd_digits: "is_digit (hd (digits n)) \<and> (0 < n \<longrightarrow> hd (digits n) \<noteq> CHR ''0'')"
proof (induction n rule: digits.induct)
  case (1 n)
  show ?case
  proof (cases "n < 10")
    case True
    then show ?thesis using digit_char_cases [of n] by (subst (1 2) digits.simps) simp
  next
    case False
    then have "0 < n div 10" by simp
    then show ?thesis
      using False 1 digits_not_Nil [of "n div 10"] by (subst (1 2) digits.simps) simp
  qed
qed

lemma decimal_value_decimal: "decimal_value (decimal i) = i"
proof (cases "i < 0")
  case True
  then show ?thesis by (simp add: decimal_def decimal_value_def digits_value_digits)
next
  case False
  obtain c cs where cs: "digits (nat i) = c # cs"
    using digits_not_Nil [of "nat i"] by (cases "digits (nat i)") auto
  have "is_digit c" using hd_digits [of "nat i"] cs by simp
  then have "c \<noteq> CHR ''-''" by (auto simp: is_digit_def)
  then show ?thesis
    using False cs digits_value_digits [of "nat i"]
    by (simp add: decimal_def decimal_value_def)
qed

lemma decimal_digits:
  "0 \<le> i \<Longrightarrow> list_all is_digit (decimal i) \<and> (0 < i \<longrightarrow> hd (decimal i) \<noteq> CHR ''0'')"
  using digits_all_digits [of "nat i"] hd_digits [of "nat i"] by (simp add: decimal_def)

lemma numberToString_exact: "\<bar>i\<bar> < 2 ^ 53 \<Longrightarrow> numberToString h i = decimal i"
  by (simp add: numberToString_def)

subsection \<open>The sample helpers, evaluated\<close>

lemma decimal_samples:
  "decimal 1 = ''1''" "decimal 2 = ''2''" "decimal 3 = ''3''" "decimal 120 = ''120''"
  by code_simp+

lemma sample_numbers:
  "numberToString sample_helpers 1 = ''1''"
  "numberToString sample_helpers 2 = ''2''"
  "numberToString sample_helpers 120 = ''120''"
  "numberToString sample_helpers 1000000000000000000000 = ''1e+21''"
  by (simp_all add: numberToString_def decimal_samples sample_helpers_def)

lemma sample_names:
  "pascalCase sample_helpers ''shape'' = ''Shape''"
  "pascalCase sample_helpers ''add'' = ''Add''"
  "pascalCase sample_helpers ''ping'' = ''Ping''"
  "pascalCase sample_helpers ''echo'' = ''Echo''"
  "pascalCase sample_helpers ''negate'' = ''Negate''"
  "pascalCase sample_helpers ''bad'' = ''Bad''"
  "pascalCase sample_helpers ''BadRequest'' = ''BadRequest''"
  "pascalCase sample_helpers ''point'' = ''Point''"
  "pascalCase sample_helpers ''AddRequest'' = ''AddRequest''"
  "snakeCase sample_helpers ''Circle'' = ''circle''"
  "snakeCase sample_helpers ''i32'' = ''i32''"
  "snakeCase sample_helpers ''a'' = ''a''"
  "snakeCase sample_helpers ''b'' = ''b''"
  "snakeCase sample_helpers ''x'' = ''x''"
  "snakeCase sample_helpers ''y'' = ''y''"
  "snakeCase sample_helpers ''w'' = ''w''"
  by code_simp+

lemma sample_formatComment:
  "formatComment sample_helpers p None = []"
  "formatComment sample_helpers p (Some t) = p @ t @ ''\<newline>''"
  by (simp_all add: sample_helpers_def)

lemma sample_included:
  "shouldIncludeHandler sample_helpers (empty_context\<lparr>ctx_role := Some calc_role, ctx_operation := x\<rparr>)"
  by (simp add: sample_helpers_def calc_role_def)

lemma sample_excluded:
  "\<not> shouldIncludeHandler sample_helpers (empty_context\<lparr>ctx_role := Some hidden_role, ctx_operation := x\<rparr>)"
  by (simp add: sample_helpers_def hidden_role_def)

lemma sample_isVoid: "isVoid sample_helpers t = (t = Named ''void'')"
  by (simp add: sample_helpers_def)

section \<open>Unions\<close>

text \<open>
  The loop over the members, on a run of \<open>Named\<close> members: each writes its line, numbered
  from the counter on, and the loop goes on with the rest.
\<close>

lemma union_members_named:
  "union_members h i (map Named ns @ ts) v =
     union_members h (i + length ns) ts
       (write_text (concat (map (spec_union_line h) (enumerate (Suc i) ns))) v)"
proof (induction ns arbitrary: i v)
  case Nil
  show ?case by simp
next
  case (Cons n ns)
  show ?case
    by (simp add: Cons.IH write_text_twice spec_union_line_def)
qed

lemma union_members_ok_iff:
  "(\<exists>v'. union_members h i ts v = Inr v') \<longleftrightarrow> (\<forall>t \<in> set ts. \<exists>n. t = Named n)"
proof (induction ts arbitrary: i v)
  case Nil
  show ?case by simp
next
  case (Cons t ts)
  show ?case
  proof (cases t)
    case (Named n)
    then show ?thesis using Cons.IH by simp
  next
    case (ListType a)
    then show ?thesis by (simp split: sum.split)
  next
    case (MapType a b)
    then show ?thesis by (simp split: sum.split)
  next
    case (Optional a)
    then show ?thesis by (simp split: sum.split)
  next
    case (OtherKind k)
    then show ?thesis by simp
  qed
qed

lemma member_name_None: "(\<forall>n. t \<noteq> Named n) \<Longrightarrow> member_name t = None"
  by (cases t) simp_all

text \<open>
  Claim C5. Visiting a union whose \<open>N\<close> members are the named types \<open>ns\<close> appends exactly
  one block: the description comment, \<open>message <PascalCase(name)> {\<close>, the single group
  \<open>oneof oneof {\<close>, one line \<open><signature> <snake_case(name)>_value = <i>;\<close> per member
  in declaration order with the numbers \<open>1, ..., N\<close>, and the two closing lines.
\<close>

theorem union_emission:
  assumes "ctx_union ctx = Some u" and "union_types u = map Named ns"
  shows "visitUnion h ctx v =
    Inr (write_text
          (formatComment h ''// '' (union_description u)
           @ ''message '' @ pascalCase h (union_name u) @ '' {\<newline>''
           @ ''  oneof oneof {\<newline>''
           @ concat (map (spec_union_line h) (zip [1..<Suc (length ns)] ns))
           @ ''  }\<newline>''
           @ ''}\<newline>\<newline>'') v)"
  using assms union_members_named [of h 0 ns "[]"]
  by (simp add: visitUnion_def write_text_twice enumerate_eq_zip)

theorem union_emission_witness:
  "visitUnion sample_helpers (empty_context\<lparr>ctx_union := Some shape_union\<rparr>) empty_visitor =
     Inr \<lparr>written = ''// A shape\<newline>message Shape {\<newline>  oneof oneof {\<newline>    Circle circle_value = 1;\<newline>    int32 i32_value = 2;\<newline>  }\<newline>}\<newline>\<newline>'',
          requestTypes = []\<rparr>"
  using union_emission [of "empty_context\<lparr>ctx_union := Some shape_union\<rparr>" shape_union
      "[''Circle'', ''i32'']" sample_helpers empty_visitor]
  by (simp add: shape_union_def empty_visitor_def write_text_def spec_union_line_def
      sample_names sample_formatComment
      scalarTypeMap_def or_else_def decimal_samples upt_rec)

text \<open>
  Claim C10. Visiting a union returns normally exactly when every member is a \<open>Named\<close>
  type. The line of a member needs the member's name, which only a \<open>Named\<close> node has: at
  the first member of another variant whose signature resolves, the name has no value
  and the visit throws a \<open>TypeError\<close>, although the resolver returned a signature.
\<close>

theorem union_requires_named_members:
  assumes "ctx_union ctx = Some u"
  shows "((\<exists>v'. visitUnion h ctx v = Inr v') \<longleftrightarrow> (\<forall>t \<in> set (union_types u). \<exists>n. t = Named n))
    \<and> (union_types u = map Named ns @ t # ts \<and> (\<forall>n. t \<noteq> Named n) \<and> typeSignature t = Inr s
        \<longrightarrow> member_name t = None \<and> (\<exists>v'. visitUnion h ctx v = Inl (TypeError, v')))"
proof -
  define w where "w = write_text ''  oneof oneof {\<newline>''
      (write_text (''message '' @ pascalCase h (union_name u) @ '' {\<newline>'')
        (write_text (formatComment h ''// '' (union_description u)) v))"
  have run: "visitUnion h ctx v =
      and_then (union_members h 0 (union_types u) w)
        (\<lambda>v'. Inr (write_text ''}\<newline>\<newline>'' (write_text ''  }\<newline>'' v')))"
    using assms by (simp add: visitUnion_def w_def)
  have "(\<exists>v'. visitUnion h ctx v = Inr v') \<longleftrightarrow> (\<exists>v'. union_members h 0 (union_types u) w = Inr v')"
    unfolding run by (cases "union_members h 0 (union_types u) w") simp_all
  then have "(\<exists>v'. visitUnion h ctx v = Inr v') \<longleftrightarrow> (\<forall>t \<in> set (union_types u). \<exists>n. t = Named n)"
    using union_members_ok_iff [of h 0 "union_types u" w] by simp
  moreover have "member_name t = None \<and> (\<exists>v'. visitUnion h ctx v = Inl (TypeError, v'))"
    if "union_types u = map Named ns @ t # ts" "\<forall>n. t \<noteq> Named n" "typeSignature t = Inr s"
    using assms that member_name_None [of t]
    by (simp add: visitUnion_def union_members_named)
  ultimately show ?thesis by blast
qed

theorem union_requires_named_members_witness:
  "(\<exists>v'. visitUnion sample_helpers (empty_context\<lparr>ctx_union := Some shape_union\<rparr>) empty_visitor = Inr v')
   \<and> (\<nexists>v'. visitUnion sample_helpers (empty_context\<lparr>ctx_union := Some list_union\<rparr>) empty_visitor = Inr v')
   \<and> typeSignature (ListType (Named ''i32'')) = Inr ''repeated int32''
   \<and> member_name (ListType (Named ''i32'')) = None
   \<and> (\<exists>v'. visitUnion sample_helpers (empty_context\<lparr>ctx_union := Some list_union\<rparr>) empty_visitor
            = Inl (TypeError, v'))"
  using union_requires_named_members [of "empty_context\<lparr>ctx_union := Some shape_union\<rparr>"
      shape_union sample_helpers empty_visitor "[]" "Named ''Circle''" "[]" "''Circle''"]
    union_requires_named_members [of "empty_context\<lparr>ctx_union := Some list_union\<rparr>"
      list_union sample_helpers empty_visitor "[''Circle'']" "ListType (Named ''i32'')"
      "[Named ''Square'']" "''repeated int32''"]
  by (simp add: shape_union_def list_union_def scalarTypeMap_def or_else_def)

section \<open>Messages\<close>

lemma for_each_append:
  "for_each f (xs @ ys) v = and_then (for_each f xs v) (for_each f ys)"
  by (induction xs arbitrary: v) (simp_all split: sum.split)

lemma visitTypeField_line:
  assumes "ctx_field ctx = Some f" and "spec_field_line h f = Some l"
  shows "visitTypeField h ctx v = Inr (write_text l v)"
  using assms
  by (auto simp: visitTypeField_def spec_field_line_def write_text_twice Let_def
      split: option.splits sum.splits)

lemma visitTypeField_missing:
  assumes "ctx_field ctx = Some f" and "ctx_type ctx = Some ty"
    and "annotation_of (field_annotations f) ''fieldnum'' = None"
  shows "visitTypeField h ctx v =
    Inl (Error (type_name ty @ ''.'' @ field_name f @ '' requires a @fieldnum''), v)"
  using assms by (simp add: visitTypeField_def)

lemma fields_with_lines:
  assumes "list_all (\<lambda>f. spec_field_line h f \<noteq> None) fs"
  shows "for_each (\<lambda>f. visitTypeField h (ctx\<lparr>ctx_field := Some f\<rparr>)) fs v =
    Inr (write_text (concat (map (\<lambda>f. the (spec_field_line h f)) fs)) v)"
  using assms
proof (induction fs arbitrary: v)
  case Nil
  show ?case by simp
next
  case (Cons f fs)
  then obtain l where l: "spec_field_line h f = Some l" by auto
  have "visitTypeField h (ctx\<lparr>ctx_field := Some f\<rparr>) v = Inr (write_text l v)"
    using l by (simp add: visitTypeField_line)
  then show ?case using Cons l by (simp add: write_text_twice)
qed


lemma type_accept_missing:
  assumes "ctx_type ctx = Some ty" and "type_fields ty = fs @ f # fs'"
    and "list_all (\<lambda>g. spec_field_line h g \<noteq> None) fs"
    and "annotation_of (field_annotations f) ''fieldnum'' = None"
  shows "type_accept h ctx ty v =
    Inl (Error (type_name ty @ ''.'' @ field_name f @ '' requires a @fieldnum''),
         write_text (spec_message_header h ty
                     @ concat (map (\<lambda>g. the (spec_field_line h g)) fs)) v)"
  using assms
  by (simp add: type_accept_def visitTypeBefore_def for_each_append fields_with_lines
      visitTypeField_missing spec_message_header_def write_text_twice)

text \<open>
  Claim C7. Visiting a field that has no \<open>fieldnum\<close> annotation throws at once and
  writes nothing: the state at the throw is the state before the visit. A field that has
  the annotation gets its line, and the number in the line is the annotation's value as
  the host language prints it: for every value of magnitude below \<open>2\<^sup>5\<^sup>3\<close>, which
  includes every field number the wire format allows, that is the decimal numeral of
  the value, a string of digits without leading zero that reads back to the value. In
  a message, at the first field without the annotation the emission stops with what the
  header and the fields before it wrote: no line for the field, no closing text. The
  request types queued by the operations are emitted by the same steps and stop the
  same way.
\<close>

theorem missing_fieldnum_is_fatal:
  assumes "ctx_type ctx = Some ty"
  shows "(ctx_field ctx = Some f \<and> annotation_of (field_annotations f) ''fieldnum'' = None
      \<longrightarrow> visitTypeField h ctx v =
          Inl (Error (type_name ty @ ''.'' @ field_name f @ '' requires a @fieldnum''), v))
    \<and> (ctx_field ctx = Some f \<and> annotation_of (field_annotations f) ''fieldnum'' = Some a
        \<and> typeSignature (field_type f) = Inr s
      \<longrightarrow> visitTypeField h ctx v =
          Inr (write_text (formatComment h ''  // '' (field_description f)
                           @ ''  '' @ s @ '' '' @ snakeCase h (field_name f) @ '' = ''
                           @ numberToString h (ann_value a) @ '';\<newline>'') v)
        \<and> (\<bar>ann_value a\<bar> < 2 ^ 53
            \<longrightarrow> numberToString h (ann_value a) = decimal (ann_value a)
              \<and> decimal_value (decimal (ann_value a)) = ann_value a
              \<and> (0 < ann_value a
                  \<longrightarrow> list_all is_digit (decimal (ann_value a))
                    \<and> hd (decimal (ann_value a)) \<noteq> CHR ''0'')))
    \<and> (type_fields ty = fs @ f # fs' \<and> list_all (\<lambda>g. spec_field_line h g \<noteq> None) fs
        \<and> annotation_of (field_annotations f) ''fieldnum'' = None
      \<longrightarrow> type_accept h ctx ty v =
          Inl (Error (type_name ty @ ''.'' @ field_name f @ '' requires a @fieldnum''),
               write_text (spec_message_header h ty
                           @ concat (map (\<lambda>g. the (spec_field_line h g)) fs)) v)
        \<and> (requestTypes v = ty # rest
            \<longrightarrow> visitDocumentAfter h ctx' v =
                Inl (Error (type_name ty @ ''.'' @ field_name f @ '' requires a @fieldnum''),
                     write_text (spec_message_header h ty
                                 @ concat (map (\<lambda>g. the (spec_field_line h g)) fs)) v)))"
proof (intro conjI impI)
  assume "ctx_field ctx = Some f \<and> annotation_of (field_annotations f) ''fieldnum'' = None"
  then show "visitTypeField h ctx v =
      Inl (Error (type_name ty @ ''.'' @ field_name f @ '' requires a @fieldnum''), v)"
    using assms by (simp add: visitTypeField_missing)
next
  assume "ctx_field ctx = Some f \<and> annotation_of (field_annotations f) ''fieldnum'' = Some a
        \<and> typeSignature (field_type f) = Inr s"
  then show "visitTypeField h ctx v =
      Inr (write_text (formatComment h ''  // '' (field_description f)
                       @ ''  '' @ s @ '' '' @ snakeCase h (field_name f) @ '' = ''
                       @ numberToString h (ann_value a) @ '';\<newline>'') v)"
    by (simp add: visitTypeField_line spec_field_line_def)
next
  assume "\<bar>ann_value a\<bar> < 2 ^ 53"
  then show "numberToString h (ann_value a) = decimal (ann_value a)"
    by (rule numberToString_exact)
next
  show "decimal_value (decimal (ann_value a)) = ann_value a"
    by (rule decimal_value_decimal)
next
  assume "0 < ann_value a"
  then show "list_all is_digit (decimal (ann_value a))"
    and "hd (decimal (ann_value a)) \<noteq> CHR ''0''"
    using decimal_digits [of "ann_value a"] by simp_all
next
  assume a: "type_fields ty = fs @ f # fs' \<and> list_all (\<lambda>g. spec_field_line h g \<noteq> None) fs
        \<and> annotation_of (field_annotations f) ''fieldnum'' = None"
  then show "type_accept h ctx ty v =
      Inl (Error (type_name ty @ ''.'' @ field_name f @ '' requires a @fieldnum''),
           write_text (spec_message_header h ty
                       @ concat (map (\<lambda>g. the (spec_field_line h g)) fs)) v)"
    using assms by (simp add: type_accept_missing)
  assume "requestTypes v = ty # rest"
  then show "visitDocumentAfter h ctx' v =
      Inl (Error (type_name ty @ ''.'' @ field_name f @ '' requires a @fieldnum''),
           write_text (spec_message_header h ty
                       @ concat (map (\<lambda>g. the (spec_field_line h g)) fs)) v)"
    using a type_accept_missing [of "ctx'\<lparr>ctx_type := Some ty\<rparr>" ty fs f fs' h v]
    by (simp add: visitDocumentAfter_def)
qed

lemma sample_point_lines:
  "spec_field_line sample_helpers (sample_field ''x'' (Named ''f64'') [fieldnum 120])
     = Some ''  double x = 120;\<newline>''"
  by (simp add: spec_field_line_def sample_field_def fieldnum_def annotation_of_def
      scalarTypeMap_def or_else_def sample_names sample_formatComment sample_numbers)

theorem missing_fieldnum_is_fatal_witness:
  "visitTypeField sample_helpers
      (empty_context\<lparr>ctx_type := Some point_type,
                      ctx_field := Some (sample_field ''y'' (Named ''f64'') [])\<rparr>) empty_visitor
     = Inl (Error ''point.y requires a @fieldnum'', empty_visitor)
   \<and> visitTypeField sample_helpers
      (empty_context\<lparr>ctx_type := Some point_type,
                      ctx_field := Some (sample_field ''x'' (Named ''f64'') [fieldnum 120])\<rparr>)
      empty_visitor
     = Inr \<lparr>written = ''  double x = 120;\<newline>'', requestTypes = []\<rparr>
   \<and> numberToString sample_helpers 120 = decimal 120
   \<and> decimal_value (decimal 120) = 120
   \<and> list_all is_digit (decimal 120)
   \<and> hd (decimal 120) \<noteq> CHR ''0''
   \<and> visitTypeField sample_helpers
      (empty_context\<lparr>ctx_type := Some point_type,
                      ctx_field := Some (sample_field ''w'' (Named ''f64'') [fieldnum 1000000000000000000000])\<rparr>)
      empty_visitor
     = Inr \<lparr>written = ''  double w = 1e+21;\<newline>'', requestTypes = []\<rparr>
   \<and> type_accept sample_helpers
      (empty_context\<lparr>ctx_type := Some point_type,
                      ctx_field := Some (sample_field ''y'' (Named ''f64'') [])\<rparr>)
      point_type empty_visitor
     = Inl (Error ''point.y requires a @fieldnum'',
            \<lparr>written = ''message Point {\<newline>  double x = 120;\<newline>'', requestTypes = []\<rparr>)
   \<and> visitDocumentAfter sample_helpers empty_context \<lparr>written = [], requestTypes = [point_type]\<rparr>
     = Inl (Error ''point.y requires a @fieldnum'',
            \<lparr>written = ''message Point {\<newline>  double x = 120;\<newline>'',
             requestTypes = [point_type]\<rparr>)"
proof -
  let ?x = "sample_field ''x'' (Named ''f64'') [fieldnum 120]"
  let ?y = "sample_field ''y'' (Named ''f64'') []"
  let ?z = "sample_field ''z'' (Named ''f64'') [fieldnum 3]"
  let ?w = "sample_field ''w'' (Named ''f64'') [fieldnum 1000000000000000000000]"
  let ?queued = "\<lparr>written = [], requestTypes = [point_type]\<rparr>"
  have missing: "annotation_of (field_annotations ?y) ''fieldnum'' = None"
    by (simp add: sample_field_def annotation_of_def)
  have present: "annotation_of (field_annotations ?x) ''fieldnum'' = Some (fieldnum 120)"
    "annotation_of (field_annotations ?w) ''fieldnum'' = Some (fieldnum 1000000000000000000000)"
    by (simp_all add: sample_field_def annotation_of_def fieldnum_def)
  have double: "typeSignature (field_type ?x) = Inr ''double''"
    "typeSignature (field_type ?w) = Inr ''double''"
    by (simp_all add: sample_field_def scalarTypeMap_def or_else_def)
  have fields: "type_fields point_type = [?x] @ ?y # [?z]"
    by (simp add: point_type_def)
  have before: "list_all (\<lambda>g. spec_field_line sample_helpers g \<noteq> None) [?x]"
    by (simp add: sample_point_lines)
  have nums: "ann_value (fieldnum 120) = 120" "ann_value (fieldnum 1000000000000000000000) = 1000000000000000000000"
    by (simp_all add: fieldnum_def)
  have names: "type_name point_type = ''point''" "type_description point_type = None"
    "field_name ?x = ''x''" "field_name ?y = ''y''" "field_name ?w = ''w''"
    "field_description ?x = None" "field_description ?w = None"
    by (simp_all add: point_type_def sample_field_def)
  note thrown = missing_fieldnum_is_fatal [where ty = point_type and f = ?y and h = sample_helpers
      and fs = "[?x]" and fs' = "[?z]" and rest = "[]" and ctx' = empty_context
      and a = "fieldnum 120" and s = "''double''"]
  note at_field = thrown [where v = empty_visitor
      and ctx = "empty_context\<lparr>ctx_type := Some point_type, ctx_field := Some ?y\<rparr>"]
  note at_queue = thrown [where v = ?queued
      and ctx = "empty_context\<lparr>ctx_type := Some point_type, ctx_field := Some ?y\<rparr>"]
  note line = missing_fieldnum_is_fatal [where ty = point_type and f = ?x and h = sample_helpers
      and a = "fieldnum 120" and s = "''double''" and v = empty_visitor
      and ctx = "empty_context\<lparr>ctx_type := Some point_type, ctx_field := Some ?x\<rparr>"]
  note large = missing_fieldnum_is_fatal [where ty = point_type and f = ?w and h = sample_helpers
      and a = "fieldnum 1000000000000000000000" and s = "''double''" and v = empty_visitor
      and ctx = "empty_context\<lparr>ctx_type := Some point_type, ctx_field := Some ?w\<rparr>"]
  show ?thesis
    using at_field at_queue line large
    by (simp add: missing present double fields before nums names sample_point_lines
        spec_message_header_def sample_names sample_formatComment sample_numbers
        empty_visitor_def write_text_def)
qed

section \<open>Operations\<close>

lemma visitOperationBefore_skipped:
  "\<not> shouldIncludeHandler h ctx \<Longrightarrow> visitOperationBefore h ctx v = Inr v"
  by (simp add: visitOperationBefore_def)

lemma visitOperationBefore_included:
  assumes "shouldIncludeHandler h ctx" and "ctx_operation ctx = Some oper"
    and "if oper_unary oper
         then \<exists>p ps. oper_parameters oper = p # ps \<and> typeSignature (param_type p) = Inr req
         else req = pascalCase h (oper_name oper) @ ''Request''"
    and "if isVoid h (oper_type oper) then res = ''Empty''
         else typeSignature (oper_type oper) = Inr res"
  shows "visitOperationBefore h ctx v =
    Inr (write_text
          (formatComment h ''  // '' (oper_description oper)
           @ ''  rpc '' @ pascalCase h (oper_name oper) @ ''('' @ req
           @ '') returns ('' @ res @ '');\<newline>'')
          (if oper_unary oper then v
           else v\<lparr>requestTypes := requestTypes v @ [convertOperationToType h oper]\<rparr>))"
  using assms
  by (auto simp: visitOperationBefore_def write_signature_def Let_def write_text_def
      split: if_splits)

lemma requestTypes_visitOperationBefore:
  assumes "ctx_operation ctx = Some oper"
  shows "requestTypes (final_state (visitOperationBefore h ctx v)) =
    (if shouldIncludeHandler h ctx \<and> \<not> oper_unary oper
     then requestTypes v @ [convertOperationToType h oper] else requestTypes v)"
  using assms
  by (auto simp: visitOperationBefore_def write_signature_def Let_def and_then_def
      split: list.splits sum.splits)

text \<open>
  Claim C2. For an operation that the inclusion predicate accepts, the visit writes the
  operation's comment and then exactly the line
  \<open>rpc <PascalCase(name)>(<request>) returns (<response>);\<close>. The request is the
  resolved type of the first parameter when the operation is unary, and then nothing is
  queued, so the request of a unary operation is never a synthesized type; otherwise it
  is \<open><PascalCase(name)>Request\<close>. The response is \<open>Empty\<close> when the return type is
  void and the resolved return type otherwise.
\<close>

theorem rpc_line:
  assumes "shouldIncludeHandler h ctx" and "ctx_operation ctx = Some oper"
    and "if oper_unary oper
         then \<exists>p ps. oper_parameters oper = p # ps \<and> typeSignature (param_type p) = Inr req
         else req = pascalCase h (oper_name oper) @ ''Request''"
    and "if isVoid h (oper_type oper) then res = ''Empty''
         else typeSignature (oper_type oper) = Inr res"
  shows "visitOperationBefore h ctx v =
    Inr (write_text
          (formatComment h ''  // '' (oper_description oper)
           @ ''  rpc '' @ pascalCase h (oper_name oper) @ ''('' @ req
           @ '') returns ('' @ res @ '');\<newline>'')
          (if oper_unary oper then v
           else v\<lparr>requestTypes := requestTypes v @ [convertOperationToType h oper]\<rparr>))"
  using assms by (rule visitOperationBefore_included)

theorem rpc_line_witness:
  "visitOperationBefore sample_helpers
      (empty_context\<lparr>ctx_role := Some calc_role, ctx_operation := Some add_operation\<rparr>) empty_visitor
     = Inr \<lparr>written = ''  rpc Add(AddRequest) returns (int32);\<newline>'',
            requestTypes = [convertOperationToType sample_helpers add_operation]\<rparr>
   \<and> visitOperationBefore sample_helpers
      (empty_context\<lparr>ctx_role := Some calc_role, ctx_operation := Some echo_operation\<rparr>) empty_visitor
     = Inr \<lparr>written = ''  rpc Echo(Message) returns (Message);\<newline>'', requestTypes = []\<rparr>
   \<and> visitOperationBefore sample_helpers
      (empty_context\<lparr>ctx_role := Some calc_role, ctx_operation := Some ping_operation\<rparr>) empty_visitor
     = Inr \<lparr>written = ''  rpc Ping(PingRequest) returns (Empty);\<newline>'',
            requestTypes = [convertOperationToType sample_helpers ping_operation]\<rparr>"
proof -
  have add_req: "if oper_unary add_operation
      then \<exists>p ps. oper_parameters add_operation = p # ps \<and> typeSignature (param_type p) = Inr ''AddRequest''
      else ''AddRequest'' = pascalCase sample_helpers (oper_name add_operation) @ ''Request''"
    by (simp add: add_operation_def sample_names)
  have add_res: "if isVoid sample_helpers (oper_type add_operation) then ''int32'' = ''Empty''
      else typeSignature (oper_type add_operation) = Inr ''int32''"
    by (simp add: add_operation_def sample_isVoid scalarTypeMap_def or_else_def)
  have echo_req: "if oper_unary echo_operation
      then \<exists>p ps. oper_parameters echo_operation = p # ps \<and> typeSignature (param_type p) = Inr ''Message''
      else ''Message'' = pascalCase sample_helpers (oper_name echo_operation) @ ''Request''"
    by (simp add: echo_operation_def sample_param_def scalarTypeMap_def or_else_def)
  have echo_res: "if isVoid sample_helpers (oper_type echo_operation) then ''Message'' = ''Empty''
      else typeSignature (oper_type echo_operation) = Inr ''Message''"
    by (simp add: echo_operation_def sample_isVoid scalarTypeMap_def or_else_def)
  have ping_req: "if oper_unary ping_operation
      then \<exists>p ps. oper_parameters ping_operation = p # ps \<and> typeSignature (param_type p) = Inr ''PingRequest''
      else ''PingRequest'' = pascalCase sample_helpers (oper_name ping_operation) @ ''Request''"
    by (simp add: ping_operation_def sample_names)
  have ping_res: "if isVoid sample_helpers (oper_type ping_operation) then ''Empty'' = ''Empty''
      else typeSignature (oper_type ping_operation) = Inr ''Empty''"
    by (simp add: ping_operation_def sample_isVoid)
  have names: "oper_name add_operation = ''add''" "oper_name echo_operation = ''echo''"
    "oper_name ping_operation = ''ping''" "oper_description add_operation = None"
    "oper_description echo_operation = None" "oper_description ping_operation = None"
    "\<not> oper_unary add_operation" "oper_unary echo_operation" "\<not> oper_unary ping_operation"
    by (simp_all add: add_operation_def echo_operation_def ping_operation_def)
  show ?thesis
    using
      rpc_line [OF sample_included _ add_req add_res, of "Some add_operation" empty_visitor]
      rpc_line [OF sample_included _ echo_req echo_res, of "Some echo_operation" empty_visitor]
      rpc_line [OF sample_included _ ping_req ping_res, of "Some ping_operation" empty_visitor]
    by (simp add: names sample_names sample_formatComment empty_visitor_def write_text_def)
qed

text \<open>
  Claim C8, as amended. Whether a request type is queued does not depend on the number
  of parameters: visiting an operation queues its request type exactly when the
  inclusion predicate accepts the operation and its unary flag is false, and this also
  when the visit throws later; in every other case the queue is left as it was.
\<close>

theorem request_queued_iff_not_unary:
  assumes "ctx_operation ctx = Some oper"
  shows "requestTypes (final_state (visitOperationBefore h ctx v)) =
    (if shouldIncludeHandler h ctx \<and> \<not> oper_unary oper
     then requestTypes v @ [convertOperationToType h oper] else requestTypes v)"
  using assms by (rule requestTypes_visitOperationBefore)

theorem request_queued_iff_not_unary_witness:
  "requestTypes (final_state (visitOperationBefore sample_helpers
      (empty_context\<lparr>ctx_role := Some calc_role, ctx_operation := Some add_operation\<rparr>) empty_visitor))
     = [convertOperationToType sample_helpers add_operation]
   \<and> requestTypes (final_state (visitOperationBefore sample_helpers
      (empty_context\<lparr>ctx_role := Some calc_role, ctx_operation := Some echo_operation\<rparr>) empty_visitor))
     = []
   \<and> requestTypes (final_state (visitOperationBefore sample_helpers
      (empty_context\<lparr>ctx_role := Some hidden_role, ctx_operation := Some add_operation\<rparr>) empty_visitor))
     = []"
  using
    request_queued_iff_not_unary [of
      "empty_context\<lparr>ctx_role := Some calc_role, ctx_operation := Some add_operation\<rparr>"
      add_operation sample_helpers empty_visitor]
    request_queued_iff_not_unary [of
      "empty_context\<lparr>ctx_role := Some calc_role, ctx_operation := Some echo_operation\<rparr>"
      echo_operation sample_helpers empty_visitor]
    request_queued_iff_not_unary [of
      "empty_context\<lparr>ctx_role := Some hidden_role, ctx_operation := Some add_operation\<rparr>"
      add_operation sample_helpers empty_visitor]
  by (simp add: sample_included sample_excluded add_operation_def echo_operation_def
      empty_visitor_def)

text \<open>
  The claim as stated fails: \<open>ping\<close> takes no parameter and \<open>negate\<close> takes one,
  neither is unary, and each gets a request type.
\<close>

theorem request_for_operation_with_at_most_one_parameter:
  "oper_parameters ping_operation = []
   \<and> requestTypes (final_state (visitOperationBefore sample_helpers
      (empty_context\<lparr>ctx_role := Some calc_role, ctx_operation := Some ping_operation\<rparr>) empty_visitor))
     = [\<lparr>type_name = ''PingRequest'',
          type_description = Some ''Request for the Ping operation.'',
          type_interfaces = [], type_annotations = [], type_fields = []\<rparr>]
   \<and> length (oper_parameters negate_operation) = 1
   \<and> map type_name (requestTypes (final_state (visitOperationBefore sample_helpers
      (empty_context\<lparr>ctx_role := Some calc_role, ctx_operation := Some negate_operation\<rparr>) empty_visitor)))
     = [''NegateRequest'']"
  by (simp add: requestTypes_visitOperationBefore sample_included ping_operation_def
      negate_operation_def empty_visitor_def convertOperationToType_def sample_names)

section \<open>Roles\<close>

lemma for_each_unchanged:
  assumes "\<And>x v. x \<in> set xs \<Longrightarrow> f x v = Inr v"
  shows "for_each f xs v = Inr v"
  using assms by (induction xs arbitrary: v) simp_all

lemma role_accept_skipped:
  assumes "\<forall>c. ctx_role c = Some r \<longrightarrow> \<not> shouldIncludeHandler h c"
  shows "role_accept h (ctx\<lparr>ctx_role := Some r\<rparr>) r v = Inr v"
proof -
  have role: "\<not> shouldIncludeHandler h (ctx\<lparr>ctx_role := Some r\<rparr>)"
    using assms by simp
  have oper: "operation_accept h (ctx\<lparr>ctx_role := Some r, ctx_operation := Some oper\<rparr>) w = Inr w"
    for oper w
  proof -
    have "\<not> shouldIncludeHandler h (ctx\<lparr>ctx_role := Some r, ctx_operation := Some oper\<rparr>)"
      using assms by simp
    then show ?thesis
      by (simp add: operation_accept_def visitOperationBefore_def visitOperationAfter_def)
  qed
  show ?thesis
    using role
    by (simp add: role_accept_def visitRoleBefore_def visitRoleAfter_def
        for_each_unchanged [where f = "\<lambda>oper. operation_accept h
          (ctx\<lparr>ctx_role := Some r, ctx_operation := Some oper\<rparr>)"] oper)
qed

text \<open>
  Claim C6. A role is rejected when the inclusion predicate rejects every context whose
  role it is. Each visit of such a role and of its operations returns with the state it
  was given, so the whole traversal of the role changes nothing: no text is written and
  no request type is queued. The emission of a document that contains the role is
  therefore the emission of the document without it.
\<close>

theorem excluded_role_emits_nothing:
  assumes "\<forall>c. ctx_role c = Some r \<longrightarrow> \<not> shouldIncludeHandler h c"
  shows "visitRoleBefore h (ctx\<lparr>ctx_role := Some r\<rparr>) v = Inr v
    \<and> visitOperationBefore h (ctx\<lparr>ctx_role := Some r, ctx_operation := Some oper\<rparr>) v = Inr v
    \<and> visitOperationAfter h (ctx\<lparr>ctx_role := Some r, ctx_operation := Some oper\<rparr>) v = Inr v
    \<and> visitRoleAfter h (ctx\<lparr>ctx_role := Some r\<rparr>) v = Inr v
    \<and> role_accept h (ctx\<lparr>ctx_role := Some r\<rparr>) r v = Inr v
    \<and> document_accept h (d\<lparr>doc_roles := rs @ r # rs'\<rparr>) v
      = document_accept h (d\<lparr>doc_roles := rs @ rs'\<rparr>) v"
proof (intro conjI)
  have role: "\<not> shouldIncludeHandler h (ctx\<lparr>ctx_role := Some r\<rparr>)"
    and oper: "\<not> shouldIncludeHandler h (ctx\<lparr>ctx_role := Some r, ctx_operation := Some oper\<rparr>)"
    using assms by simp_all
  show "visitRoleBefore h (ctx\<lparr>ctx_role := Some r\<rparr>) v = Inr v"
    using role by (simp add: visitRoleBefore_def)
  show "visitRoleAfter h (ctx\<lparr>ctx_role := Some r\<rparr>) v = Inr v"
    using role by (simp add: visitRoleAfter_def)
  show "visitOperationBefore h (ctx\<lparr>ctx_role := Some r, ctx_operation := Some oper\<rparr>) v = Inr v"
    using oper by (rule visitOperationBefore_skipped)
  show "visitOperationAfter h (ctx\<lparr>ctx_role := Some r, ctx_operation := Some oper\<rparr>) v = Inr v"
    by (simp add: visitOperationAfter_def)
  show "role_accept h (ctx\<lparr>ctx_role := Some r\<rparr>) r v = Inr v"
    using assms by (rule role_accept_skipped)
  have "for_each (\<lambda>r. role_accept h (c\<lparr>ctx_role := Some r\<rparr>) r) (rs @ r # rs') w
      = for_each (\<lambda>r. role_accept h (c\<lparr>ctx_role := Some r\<rparr>) r) (rs @ rs') w" for c w
    by (cases "for_each (\<lambda>r. role_accept h (c\<lparr>ctx_role := Some r\<rparr>) r) rs w")
      (simp_all add: for_each_append role_accept_skipped [OF assms])
  then have primary: "document_primary h c (d\<lparr>doc_roles := rs @ r # rs'\<rparr>) w
      = document_primary h c (d\<lparr>doc_roles := rs @ rs'\<rparr>) w" for c w
    by (simp add: document_primary_def)
  have "document_context (d\<lparr>doc_roles := rs @ r # rs'\<rparr>) = document_context d"
    and "document_context (d\<lparr>doc_roles := rs @ rs'\<rparr>) = document_context d"
    by (simp_all add: document_context_def)
  then show "document_accept h (d\<lparr>doc_roles := rs @ r # rs'\<rparr>) v
      = document_accept h (d\<lparr>doc_roles := rs @ rs'\<rparr>) v"
    by (simp add: document_accept_def primary)
qed

theorem excluded_role_emits_nothing_witness:
  "visitRoleBefore sample_helpers (empty_context\<lparr>ctx_role := Some hidden_role\<rparr>) empty_visitor
     = Inr empty_visitor
   \<and> visitOperationBefore sample_helpers
       (empty_context\<lparr>ctx_role := Some hidden_role, ctx_operation := Some add_operation\<rparr>) empty_visitor
     = Inr empty_visitor
   \<and> role_accept sample_helpers (empty_context\<lparr>ctx_role := Some hidden_role\<rparr>) hidden_role empty_visitor
     = Inr empty_visitor
   \<and> document_accept sample_helpers sample_document empty_visitor
     = document_accept sample_helpers (sample_document\<lparr>doc_roles := [calc_role]\<rparr>) empty_visitor"
proof -
  have rejected: "\<forall>c. ctx_role c = Some hidden_role \<longrightarrow> \<not> shouldIncludeHandler sample_helpers c"
    by (simp add: sample_helpers_def hidden_role_def)
  show ?thesis
    using excluded_role_emits_nothing [OF rejected, where ctx = empty_context
        and v = empty_visitor and d = sample_document and rs = "[]" and rs' = "[calc_role]"
        and oper = add_operation]
    by (simp add: sample_document_def)
qed

section \<open>Synthesized request types\<close>

















end
